theory Spec2Isabelle
  imports Complex_Main
begin

section \<open>The simulation state of script.js\<close>

text \<open>
  The game keeps one mutable object \<open>state\<close>. Cells and directions are JavaScript objects
  \<open>{x, y}\<close> with integer components; they are modelled as pairs of integers. The occupancy
  index is a \<open>Set\<close> of the strings \<open>x + "," + y\<close>; that key is injective on pairs of integers,
  so the index is modelled as a set of pairs and \<open>posKey\<close> as pairing. \<open>state.occupied\<close> is
  always a \<open>Set\<close>, so the guards \<open>!state.occupied\<close> of the source never fire and are left
  out.

  Numbers that are not integers in the source (timestamps, \<open>stepMs\<close>, the results of
  \<open>Math.random()\<close>) are modelled as exact rationals, without the rounding of doubles. The
  fields that only the renderer and the menu read (\<open>foodFxAt\<close>, \<open>eatWave\<close>,
  \<open>shakeUntil\<close>, \<open>menuPopulated\<close>, \<open>welcomePopulated\<close>), the canvas set-up and the
  high-score storage are outside the model; with them gone every modelled function reads
  the clock at most once, and that reading is the parameter \<open>t\<close>.
\<close>

type_synonym cell = "int \<times> int"
type_synonym vec = "int \<times> int"

record state =
  grid :: int
  stepMs :: rat
  snake :: "cell list"
  dir :: vec
  queuedDirs :: "vec list"
  food :: "cell option"
  score :: int
  lastStepAt :: rat
  gameOver :: bool
  ateOnLastStep :: bool
  runStartAt :: rat
  endedAt :: "rat option"
  started :: bool
  occupied :: "cell set"

definition BASE_GRID :: int where
  "BASE_GRID = 15"

text \<open>The object literal that \<open>state\<close> is initialised with, before \<open>bootstrap\<close> runs.\<close>

definition state0 :: state where
  "state0 = \<lparr> grid = BASE_GRID, stepMs = 150 * (15 / of_int BASE_GRID), snake = [],
     dir = (1, 0), queuedDirs = [], food = None, score = 0, lastStepAt = 0,
     gameOver = False, ateOnLastStep = False, runStartAt = 0, endedAt = None,
     started = False, occupied = {} \<rparr>"

definition posKey :: "int \<Rightarrow> int \<Rightarrow> cell" where
  "posKey x y = (x, y)"

text \<open>
  A call that reads \<open>.x\<close> of \<open>undefined\<close> or \<open>null\<close> throws a TypeError. \<open>spawnFood\<close> is a
  \<open>while (true)\<close> loop; the random numbers it draws are an input list, and a call that
  has not returned when the list is used up is \<open>Unfinished\<close>.
\<close>

datatype error = TypeError | Unfinished

section \<open>Input handling\<close>

definition queueDir :: "vec option \<Rightarrow> state \<Rightarrow> state" where
  "queueDir ndo s =
     (case ndo of
        None \<Rightarrow> s
      | Some nd \<Rightarrow>
          let lst = (if queuedDirs s \<noteq> [] then last (queuedDirs s) else dir s) in
          if fst lst + fst nd = 0 \<and> snd lst + snd nd = 0 then s
          else if fst lst = fst nd \<and> snd lst = snd nd then s
          else if length (queuedDirs s) \<ge> 2 then s
          else s\<lparr>queuedDirs := queuedDirs s @ [nd]\<rparr>)"

section \<open>Game lifecycle\<close>

text \<open>
  \<open>v | 0\<close> is ToInt32: truncation towards zero, then wrap-around into the signed 32-bit
  range.
\<close>

definition toInt32 :: "rat \<Rightarrow> int" where
  "toInt32 v =
     (let n = (if v < 0 then - \<lfloor>- v\<rfloor> else \<lfloor>v\<rfloor>)
      in (n + 2 ^ 31) mod 2 ^ 32 - 2 ^ 31)"

fun spawnFood :: "state \<Rightarrow> rat list \<Rightarrow> error + (cell \<times> rat list)" where
  "spawnFood s (r1 # r2 # rs) =
     (let x = toInt32 (r1 * of_int (grid s));
          y = toInt32 (r2 * of_int (grid s))
      in if posKey x y \<notin> occupied s then Inr ((x, y), rs) else spawnFood s rs)"
| "spawnFood s rs = Inl Unfinished"

text \<open>\<open>state.occupied = new Set(); state.snake.forEach(p => state.occupied.add(...))\<close>\<close>

definition rebuildOccupied :: "state \<Rightarrow> state" where
  "rebuildOccupied s =
     s\<lparr>occupied := fold (\<lambda>p occ. insert (posKey (fst p) (snd p)) occ) (snake s) {}\<rparr>"

definition resetGame ::
  "rat \<Rightarrow> rat list \<Rightarrow> state \<Rightarrow> error + (state \<times> rat list)" where
  "resetGame t rs s =
     (let s1 = s\<lparr>grid := 8\<rparr>;
          s2 = s1\<lparr>stepMs := 150 * (15 / of_int (grid s1))\<rparr>;
          s3 = s2\<lparr>snake := [(3, 3), (2, 3), (1, 3)], dir := (1, 0), queuedDirs := []\<rparr>;
          s4 = rebuildOccupied s3
      in case spawnFood s4 rs of
           Inl e \<Rightarrow> Inl e
         | Inr (pos, rs') \<Rightarrow>
             Inr (s4\<lparr>food := Some pos, score := 0, lastStepAt := 0, gameOver := False,
                      ateOnLastStep := False, runStartAt := t, endedAt := None,
                      started := True\<rparr>, rs'))"

definition resetToWelcome ::
  "rat \<Rightarrow> rat list \<Rightarrow> state \<Rightarrow> error + (state \<times> rat list)" where
  "resetToWelcome t rs s =
     (let s1 = s\<lparr>grid := 10\<rparr>;
          s2 = s1\<lparr>stepMs := 150 * (15 / of_int (grid s1))\<rparr>;
          s3 = s2\<lparr>snake := [(3, 3), (2, 3), (1, 3)], dir := (1, 0), queuedDirs := []\<rparr>;
          s4 = rebuildOccupied s3
      in case spawnFood s4 rs of
           Inl e \<Rightarrow> Inl e
         | Inr (pos, rs') \<Rightarrow>
             Inr (s4\<lparr>food := Some pos, score := 0, lastStepAt := 0, gameOver := False,
                      ateOnLastStep := False, runStartAt := t, endedAt := None,
                      started := False\<rparr>, rs'))"

section \<open>The update step\<close>

definition consumeDirectionQueue :: "state \<Rightarrow> state" where
  "consumeDirectionQueue s =
     (case queuedDirs s of
        [] \<Rightarrow> s
      | d # ds \<Rightarrow> s\<lparr>dir := d, queuedDirs := ds\<rparr>)"

definition nextHead :: "state \<Rightarrow> error + cell" where
  "nextHead s =
     (case snake s of
        [] \<Rightarrow> Inl TypeError
      | h # _ \<Rightarrow> Inr (fst h + fst (dir s), snd h + snd (dir s)))"

definition isWallCollision :: "state \<Rightarrow> int \<Rightarrow> int \<Rightarrow> bool" where
  "isWallCollision s nx ny \<longleftrightarrow> nx < 0 \<or> ny < 0 \<or> nx \<ge> grid s \<or> ny \<ge> grid s"

definition isSelfCollision :: "state \<Rightarrow> int \<Rightarrow> int \<Rightarrow> bool \<Rightarrow> bool" where
  "isSelfCollision s nx ny willEat =
     (let hits = (posKey nx ny \<in> occupied s)
      in if \<not> willEat \<and> snake s \<noteq> [] \<and> fst (last (snake s)) = nx \<and> snd (last (snake s)) = ny
         then False
         else hits)"

text \<open>
  The threshold \<open>state.grid ** 2 * 0.4\<close> is taken exactly, as \<open>grid\<^sup>2 \<cdot> 2/5\<close>; for the even
  grid sizes from 8 to 36 the comparison with the snake's length comes out the same in
  doubles (where \<open>grid\<^sup>2 \<cdot> 2/5\<close> is a whole number, at 10, 20 and 30, the double product
  is that number). Each cell object of the snake is mutated in place; no other part of
  the state shares them.
\<close>

definition growGridIfNeeded :: "state \<Rightarrow> state" where
  "growGridIfNeeded s =
     (if of_nat (length (snake s)) \<ge> of_int (grid s ^ 2) * (4 / 10 :: rat) \<and> grid s < 36
      then let s1 = s\<lparr>grid := grid s + 2\<rparr>;
               s2 = s1\<lparr>stepMs := 150 * (15 / of_int (grid s1))\<rparr>;
               s3 = s2\<lparr>snake := map (\<lambda>p. (fst p + 1, snd p + 1)) (snake s2)\<rparr>
           in rebuildOccupied s3
      else s)"

definition step :: "rat \<Rightarrow> rat list \<Rightarrow> state \<Rightarrow> error + (state \<times> rat list)" where
  "step t rs s0 =
     (let s1 = consumeDirectionQueue (s0\<lparr>ateOnLastStep := False\<rparr>)
      in case nextHead s1 of
           Inl e \<Rightarrow> Inl e
         | Inr (nx, ny) \<Rightarrow>
            (case food s1 of
               None \<Rightarrow> Inl TypeError
             | Some f \<Rightarrow>
                 let willEat = (nx = fst f \<and> ny = snd f) in
                 if isWallCollision s1 nx ny \<or> isSelfCollision s1 nx ny willEat
                 then Inr (s1\<lparr>gameOver := True, endedAt := Some t\<rparr>, rs)
                 else
                   let s2 = s1\<lparr>snake := (nx, ny) # snake s1\<rparr>;
                       s3 = s2\<lparr>occupied := insert (posKey nx ny) (occupied s2)\<rparr>
                   in if willEat
                      then
                        let s4 = growGridIfNeeded (s3\<lparr>score := score s3 + 1\<rparr>)
                        in (case spawnFood s4 rs of
                              Inl e \<Rightarrow> Inl e
                            | Inr (pos, rs') \<Rightarrow>
                                Inr (s4\<lparr>food := Some pos, ateOnLastStep := True\<rparr>, rs'))
                      else
                        let tail = last (snake s3);
                            s4 = s3\<lparr>snake := butlast (snake s3)\<rparr>
                        in Inr (s4\<lparr>occupied := occupied s4 - {posKey (fst tail) (snd tail)}\<rparr>,
                                rs)))"

section \<open>Event handlers and the main loop\<close>

text \<open>
  \<open>loop(ts)\<close> runs once per animation frame. \<open>!state.lastStepAt\<close> holds when the field
  is \<open>0\<close>.
\<close>

definition loop ::
  "rat \<Rightarrow> rat \<Rightarrow> rat list \<Rightarrow> state \<Rightarrow> error + (state \<times> rat list)" where
  "loop ts t rs s =
     (let s1 = (if lastStepAt s = 0 then s\<lparr>lastStepAt := ts\<rparr> else s)
      in if started s1 \<and> \<not> gameOver s1 \<and> ts - lastStepAt s1 \<ge> stepMs s1
         then step t rs (s1\<lparr>lastStepAt := ts\<rparr>)
         else Inr (s1, rs))"

text \<open>\<open>onKeyDown\<close>, with \<open>k\<close> the lower-cased key name \<open>e.key.toLowerCase()\<close>.\<close>

definition onKeyDown ::
  "string \<Rightarrow> rat \<Rightarrow> rat list \<Rightarrow> state \<Rightarrow> error + (state \<times> rat list)" where
  "onKeyDown k t rs s =
     (if k = ''f'' then Inr (s, rs)
      else if k = ''arrowup'' \<or> k = ''w'' then Inr (queueDir (Some (0, -1)) s, rs)
      else if k = ''arrowdown'' \<or> k = ''s'' then Inr (queueDir (Some (0, 1)) s, rs)
      else if k = ''arrowleft'' \<or> k = ''a'' then Inr (queueDir (Some (-1, 0)) s, rs)
      else if k = ''arrowright'' \<or> k = ''d'' then Inr (queueDir (Some (1, 0)) s, rs)
      else if k \<in> set ['' '', ''spacebar'', ''space'', ''arrowup'', ''arrowdown'',
                        ''arrowleft'', ''arrowright'']
              \<and> (gameOver s \<or> \<not> started s)
      then resetGame t rs s
      else Inr (s, rs))"

text \<open>
  \<open>onTouchEnd\<close> for a touch that has a recorded start, \<open>dx\<close> and \<open>dy\<close> being the
  displacement since then.
\<close>

definition onTouchEnd ::
  "rat \<Rightarrow> rat \<Rightarrow> rat \<Rightarrow> rat list \<Rightarrow> state \<Rightarrow> error + (state \<times> rat list)" where
  "onTouchEnd dx dy t rs s =
     (if \<bar>dx\<bar> < 24 \<and> \<bar>dy\<bar> < 24
      then (if gameOver s \<or> \<not> started s then resetGame t rs s else Inr (s, rs))
      else
        let nd = (if \<bar>dx\<bar> > \<bar>dy\<bar>
                  then (if dx > 0 then (1, 0) else (-1, 0))
                  else (if dy > 0 then (0, 1) else (0, -1)))
        in Inr (queueDir (Some nd) s, rs))"

text \<open>
  The events the page delivers: an animation frame with its timestamp, a key press, a
  click on the play button (\<open>onPlayClick\<close> calls \<open>resetGame\<close> when the click is on the
  button and does nothing otherwise) and the end of a touch.
\<close>

datatype event = Frame rat | KeyDown string | PlayClick | TouchEnd rat rat

fun handle ::
  "event \<Rightarrow> rat \<Rightarrow> rat list \<Rightarrow> state \<Rightarrow> error + (state \<times> rat list)" where
  "handle (Frame ts) t rs s = loop ts t rs s"
| "handle (KeyDown k) t rs s = onKeyDown k t rs s"
| "handle PlayClick t rs s = resetGame t rs s"
| "handle (TouchEnd dx dy) t rs s = onTouchEnd dx dy t rs s"

text \<open>
  The states the program can be in: \<open>bootstrap\<close> calls \<open>resetToWelcome\<close> on the initial
  object, and from then on only the handlers run, each with some clock reading and some
  supply of random numbers.
\<close>

inductive reachable :: "state \<Rightarrow> bool" where
  boot: "resetToWelcome t rs state0 = Inr (s, rs') \<Longrightarrow> reachable s"
| event: "reachable s \<Longrightarrow> handle e t rs s = Inr (s', rs') \<Longrightarrow> reachable s'"

text \<open>
  A run of events, each with the clock reading and the random numbers available to its
  handler; an exception ends the run.
\<close>

fun run :: "(event \<times> rat \<times> rat list) list \<Rightarrow> state \<Rightarrow> error + state" where
  "run [] s = Inr s"
| "run ((e, t, rs) # es) s =
     (case handle e t rs s of Inl err \<Rightarrow> Inl err | Inr (s', _) \<Rightarrow> run es s')"

section \<open>Predicates used in the statements\<close>

text \<open>
  The events that start a run: the handler calls \<open>resetGame\<close> on exactly these (the
  play button; a space key or a tap while the game is over or not started). The arrow
  keys are matched as directions before the start branch of \<open>onKeyDown\<close> is reached.
\<close>

fun startsRun :: "event \<Rightarrow> state \<Rightarrow> bool" where
  "startsRun PlayClick s = True"
| "startsRun (KeyDown k) s =
     (k \<in> set ['' '', ''spacebar'', ''space''] \<and> (gameOver s \<or> \<not> started s))"
| "startsRun (TouchEnd dx dy) s = (\<bar>dx\<bar> < 24 \<and> \<bar>dy\<bar> < 24 \<and> (gameOver s \<or> \<not> started s))"
| "startsRun (Frame ts) s = False"

text \<open>
  The four directions the handlers pass to \<open>queueDir\<close>, reversal of one direction by
  another (their components add up to zero), and the facts that hold of every reachable
  state: an even grid size between 8 and 36, a snake with a head, a food cell, at most
  two queued directions, and no direction in \<open>dir\<close> followed by the queue that reverses
  the one before it.
\<close>

definition reverses :: "vec \<Rightarrow> vec \<Rightarrow> bool" where
  "reverses a b \<longleftrightarrow> fst a + fst b = 0 \<and> snd a + snd b = 0"

definition unitDir :: "vec \<Rightarrow> bool" where
  "unitDir d \<longleftrightarrow> d = (1, 0) \<or> d = (-1, 0) \<or> d = (0, 1) \<or> d = (0, -1)"

fun turnsOk :: "vec list \<Rightarrow> bool" where
  "turnsOk (a # b # ds) = (\<not> reverses a b \<and> turnsOk (b # ds))"
| "turnsOk ds = True"

definition wellFormed :: "state \<Rightarrow> bool" where
  "wellFormed s \<longleftrightarrow>
     even (grid s) \<and> 8 \<le> grid s \<and> grid s \<le> 36 \<and> snake s \<noteq> [] \<and> food s \<noteq> None
     \<and> length (queuedDirs s) \<le> 2 \<and> list_all unitDir (dir s # queuedDirs s)
     \<and> turnsOk (dir s # queuedDirs s)"

text \<open>
  What a key or touch handler can return: the result of a restart, the state with one of
  the four directions offered to the queue, or the state as it was.
\<close>

definition inputOutcome ::
  "rat \<Rightarrow> rat list \<Rightarrow> state \<Rightarrow> error + (state \<times> rat list) \<Rightarrow> bool" where
  "inputOutcome t rs s r \<longleftrightarrow> r = resetGame t rs s
     \<or> (\<exists>nd. unitDir nd \<and> r = Inr (queueDir (Some nd) s, rs)) \<or> r = Inr (s, rs)"

text \<open>
  \<open>spawnFood\<close> draws the random numbers two at a time. \<open>freeDraw s rs\<close> says that some
  pair of \<open>rs\<close> at an even position lands on a cell that is not in the occupancy index
  of \<open>s\<close>; then, and only then, \<open>spawnFood s rs\<close> returns.
\<close>

definition freeDraw :: "state \<Rightarrow> rat list \<Rightarrow> bool" where
  "freeDraw s rs \<longleftrightarrow>
     (\<exists>k. 2 * k + 1 < length rs
        \<and> (toInt32 (rs ! (2 * k) * of_int (grid s)),
            toInt32 (rs ! (2 * k + 1) * of_int (grid s))) \<notin> occupied s)"

section \<open>Concrete states and runs\<close>

text \<open>
  The state \<open>bootstrap\<close> leaves when the first food lands on \<open>(0, 0)\<close>; the state a
  start from there leaves when the food lands on \<open>(4, 3)\<close>, at clock reading \<open>0\<close>; and
  the state one tick later, the food eaten and placed again at \<open>(0, 0)\<close>. The runs below
  start from \<open>fresh\<close>; the first frame of a run only sets \<open>lastStepAt\<close>, every later
  frame here is a tick.
\<close>

definition idle :: state where
  "idle = \<lparr> grid = 10, stepMs = 225, snake = [(3, 3), (2, 3), (1, 3)],
     dir = (1, 0), queuedDirs = [], food = Some (0, 0), score = 0, lastStepAt = 0,
     gameOver = False, ateOnLastStep = False, runStartAt = 0, endedAt = None,
     started = False, occupied = {(3, 3), (2, 3), (1, 3)} \<rparr>"

definition fresh :: state where
  "fresh = \<lparr> grid = 8, stepMs = 1125 / 4, snake = [(3, 3), (2, 3), (1, 3)],
     dir = (1, 0), queuedDirs = [], food = Some (4, 3), score = 0, lastStepAt = 0,
     gameOver = False, ateOnLastStep = False, runStartAt = 0, endedAt = None,
     started = True, occupied = {(3, 3), (2, 3), (1, 3)} \<rparr>"


text \<open>A run in which the snake, four cells long, turns in a two by two square until its head
  is beside its tail, and the tick that moves the head onto the tail cell.\<close>

definition chase_trace :: "(event \<times> rat \<times> rat list) list" where
  "chase_trace =
    [(Frame 1000, 1000, []), (Frame 2000, 2000, [0, 0]), (KeyDown ''arrowdown'', 2500, []),
     (Frame 3000, 3000, []), (KeyDown ''arrowleft'', 3500, []), (Frame 4000, 4000, []),
     (KeyDown ''arrowup'', 4500, [])]"

definition chase_before :: state where
  "chase_before = fresh\<lparr>snake := [(3, 4), (4, 4), (4, 3), (3, 3)],
       occupied := {(3, 4), (4, 4), (4, 3), (3, 3)}, dir := (-1, 0),
       queuedDirs := [(0, -1)], food := Some (0, 0), score := 1, lastStepAt := 4000\<rparr>"

definition chase_after :: state where
  "chase_after = fresh\<lparr>snake := [(3, 3), (3, 4), (4, 4), (4, 3)],
       occupied := {(3, 4), (4, 4), (4, 3)}, dir := (0, -1), queuedDirs := [],
       food := Some (0, 0), score := 1, lastStepAt := 5000\<rparr>"

text \<open>A run in which the snake, six cells long, first moves its head onto its tail cell
  \<open>(4, 3)\<close> and three ticks later turns back into that cell, by then the fourth cell of
  its body.\<close>

definition cross_trace :: "(event \<times> rat \<times> rat list) list" where
  "cross_trace =
    [(Frame 1000, 1000, []), (Frame 2000, 2000, [5 / 8, 3 / 8]),
     (Frame 3000, 3000, [3 / 4, 3 / 8]), (Frame 4000, 4000, [0, 0]),
     (KeyDown ''arrowdown'', 4500, []), (Frame 5000, 5000, []),
     (KeyDown ''arrowleft'', 5500, []), (Frame 6000, 6000, []), (Frame 7000, 7000, []),
     (KeyDown ''arrowup'', 7500, []), (Frame 8000, 8000, []), (Frame 9000, 9000, []),
     (KeyDown ''arrowleft'', 9500, []), (Frame 10000, 10000, []),
     (KeyDown ''arrowdown'', 10500, []), (Frame 11000, 11000, []),
     (KeyDown ''arrowright'', 11500, [])]"

definition cross_before :: state where
  "cross_before = fresh\<lparr>snake := [(3, 3), (3, 2), (4, 2), (4, 3), (4, 4), (5, 4)],
       occupied := {(3, 3), (3, 2), (4, 2), (4, 4), (5, 4)}, dir := (0, 1),
       queuedDirs := [(1, 0)], food := Some (0, 0), score := 3, lastStepAt := 11000\<rparr>"

definition cross_after :: state where
  "cross_after = fresh\<lparr>snake := [(4, 3), (3, 3), (3, 2), (4, 2), (4, 3), (4, 4)],
       occupied := {(4, 3), (3, 3), (3, 2), (4, 2), (4, 4)}, dir := (1, 0),
       queuedDirs := [], food := Some (0, 0), score := 3, lastStepAt := 12000\<rparr>"

text \<open>The same opening with the food at \<open>(4, 2)\<close>: the head moves onto the tail cell
  \<open>(4, 3)\<close>, and on the next tick the snake eats and the food is placed again.\<close>

definition spawn_trace :: "(event \<times> rat \<times> rat list) list" where
  "spawn_trace =
    [(Frame 1000, 1000, []), (Frame 2000, 2000, [5 / 8, 3 / 8]),
     (Frame 3000, 3000, [3 / 4, 3 / 8]), (Frame 4000, 4000, [1 / 2, 1 / 4]),
     (KeyDown ''arrowdown'', 4500, []), (Frame 5000, 5000, []),
     (KeyDown ''arrowleft'', 5500, []), (Frame 6000, 6000, []), (Frame 7000, 7000, []),
     (KeyDown ''arrowup'', 7500, []), (Frame 8000, 8000, [])]"

definition spawn_before :: state where
  "spawn_before = fresh\<lparr>snake := [(4, 3), (4, 4), (5, 4), (6, 4), (6, 3), (5, 3)],
       occupied := {(4, 4), (5, 4), (6, 4), (6, 3), (5, 3)}, dir := (0, -1),
       queuedDirs := [], food := Some (4, 2), score := 3, lastStepAt := 8000\<rparr>"

definition spawn_after :: state where
  "spawn_after = fresh\<lparr>snake := [(4, 2), (4, 3), (4, 4), (5, 4), (6, 4), (6, 3),
       (5, 3)], occupied := {(4, 2), (4, 4), (5, 4), (6, 4), (6, 3), (5, 3)},
       dir := (0, -1), queuedDirs := [], food := Some (4, 3), score := 4,
       lastStepAt := 9000, ateOnLastStep := True\<rparr>"

text \<open>A run that eats on every tick, along the rows of the board, up to the tick on which
  the snake reaches 26 cells.\<close>

definition grow_trace :: "(event \<times> rat \<times> rat list) list" where
  "grow_trace =
    [(Frame 1000, 1000, []), (Frame 2000, 2000, [5 / 8, 3 / 8]),
     (Frame 3000, 3000, [3 / 4, 3 / 8]), (Frame 4000, 4000, [7 / 8, 3 / 8]),
     (Frame 5000, 5000, [7 / 8, 1 / 2]), (KeyDown ''arrowdown'', 5500, []),
     (Frame 6000, 6000, [3 / 4, 1 / 2]), (KeyDown ''arrowleft'', 6500, []),
     (Frame 7000, 7000, [5 / 8, 1 / 2]), (Frame 8000, 8000, [1 / 2, 1 / 2]),
     (Frame 9000, 9000, [3 / 8, 1 / 2]), (Frame 10000, 10000, [1 / 4, 1 / 2]),
     (Frame 11000, 11000, [1 / 8, 1 / 2]), (Frame 12000, 12000, [0, 1 / 2]),
     (Frame 13000, 13000, [0, 5 / 8]), (KeyDown ''arrowdown'', 13500, []),
     (Frame 14000, 14000, [1 / 8, 5 / 8]), (KeyDown ''arrowright'', 14500, []),
     (Frame 15000, 15000, [1 / 4, 5 / 8]), (Frame 16000, 16000, [3 / 8, 5 / 8]),
     (Frame 17000, 17000, [1 / 2, 5 / 8]), (Frame 18000, 18000, [5 / 8, 5 / 8]),
     (Frame 19000, 19000, [3 / 4, 5 / 8]), (Frame 20000, 20000, [7 / 8, 5 / 8]),
     (Frame 21000, 21000, [7 / 8, 3 / 4]), (KeyDown ''arrowdown'', 21500, []),
     (Frame 22000, 22000, [3 / 4, 3 / 4]), (KeyDown ''arrowleft'', 22500, []),
     (Frame 23000, 23000, [5 / 8, 3 / 4])]"

definition grow_before :: state where
  "grow_before = fresh\<lparr>snake := [(6, 6), (7, 6), (7, 5), (6, 5), (5, 5), (4, 5),
       (3, 5), (2, 5), (1, 5), (0, 5), (0, 4), (1, 4), (2, 4), (3, 4), (4, 4), (5, 4),
       (6, 4), (7, 4), (7, 3), (6, 3), (5, 3), (4, 3), (3, 3), (2, 3), (1, 3)],
       occupied := {(6, 6), (7, 6), (7, 5), (6, 5), (5, 5), (4, 5), (3, 5), (2, 5), (1, 5),
       (0, 5), (0, 4), (1, 4), (2, 4), (3, 4), (4, 4), (5, 4), (6, 4), (7, 4), (7, 3),
       (6, 3), (5, 3), (4, 3), (3, 3), (2, 3), (1, 3)}, dir := (-1, 0), queuedDirs := [],
       food := Some (5, 6), score := 22, lastStepAt := 23000, ateOnLastStep := True\<rparr>"

definition grow_after :: state where
  "grow_after = fresh\<lparr>grid := 10, stepMs := 225, snake := [(6, 7), (7, 7), (8, 7),
       (8, 6), (7, 6), (6, 6), (5, 6), (4, 6), (3, 6), (2, 6), (1, 6), (1, 5), (2, 5),
       (3, 5), (4, 5), (5, 5), (6, 5), (7, 5), (8, 5), (8, 4), (7, 4), (6, 4), (5, 4),
       (4, 4), (3, 4), (2, 4)], occupied := {(6, 7), (7, 7), (8, 7), (8, 6), (7, 6),
       (6, 6), (5, 6), (4, 6), (3, 6), (2, 6), (1, 6), (1, 5), (2, 5), (3, 5), (4, 5),
       (5, 5), (6, 5), (7, 5), (8, 5), (8, 4), (7, 4), (6, 4), (5, 4), (4, 4), (3, 4),
       (2, 4)}, dir := (-1, 0), queuedDirs := [], food := Some (0, 0), score := 23,
       lastStepAt := 24000, ateOnLastStep := True\<rparr>"

text \<open>A run that eats once and then goes straight on to the right-hand wall.\<close>

definition wall_trace :: "(event \<times> rat \<times> rat list) list" where
  "wall_trace =
    [(Frame 1000, 1000, []), (Frame 2000, 2000, [0, 0]), (Frame 3000, 3000, []),
     (Frame 4000, 4000, []), (Frame 5000, 5000, [])]"

definition wall_before :: state where
  "wall_before = fresh\<lparr>snake := [(7, 3), (6, 3), (5, 3), (4, 3)],
       occupied := {(7, 3), (6, 3), (5, 3), (4, 3)}, dir := (1, 0), queuedDirs := [],
       food := Some (0, 0), score := 1, lastStepAt := 5000\<rparr>"

definition wall_after :: state where
  "wall_after = fresh\<lparr>snake := [(7, 3), (6, 3), (5, 3), (4, 3)],
       occupied := {(7, 3), (6, 3), (5, 3), (4, 3)}, dir := (1, 0), queuedDirs := [],
       food := Some (0, 0), score := 1, lastStepAt := 6000, gameOver := True,
       endedAt := Some 6000\<rparr>"




text \<open>A run in which the snake, five cells long, turns into the fourth cell of its own body,
  with the occupancy index still in step with the snake.\<close>

definition bite_trace :: "(event \<times> rat \<times> rat list) list" where
  "bite_trace =
    [(Frame 1000, 1000, []), (Frame 2000, 2000, [5 / 8, 3 / 8]),
     (Frame 3000, 3000, [0, 0]), (KeyDown ''arrowdown'', 3500, []), (Frame 4000, 4000, []),
     (KeyDown ''arrowleft'', 4500, []), (Frame 5000, 5000, []),
     (KeyDown ''arrowup'', 5500, [])]"

definition bite_before :: state where
  "bite_before = fresh\<lparr>snake := [(4, 4), (5, 4), (5, 3), (4, 3), (3, 3)],
       occupied := {(4, 4), (5, 4), (5, 3), (4, 3), (3, 3)}, dir := (-1, 0),
       queuedDirs := [(0, -1)], food := Some (0, 0), score := 2, lastStepAt := 5000\<rparr>"

definition bite_after :: state where
  "bite_after = fresh\<lparr>snake := [(4, 4), (5, 4), (5, 3), (4, 3), (3, 3)],
       occupied := {(4, 4), (5, 4), (5, 3), (4, 3), (3, 3)}, dir := (0, -1),
       queuedDirs := [], food := Some (0, 0), score := 2, lastStepAt := 6000,
       gameOver := True, endedAt := Some 6000\<rparr>"

section \<open>Facts about the parts of a step\<close>

lemma consume_fields [simp]:
  "snake (consumeDirectionQueue s) = snake s"
  "occupied (consumeDirectionQueue s) = occupied s"
  "grid (consumeDirectionQueue s) = grid s"
  "food (consumeDirectionQueue s) = food s"
  "score (consumeDirectionQueue s) = score s"
  "started (consumeDirectionQueue s) = started s"
  "gameOver (consumeDirectionQueue s) = gameOver s"
  "endedAt (consumeDirectionQueue s) = endedAt s"
  by (simp_all add: consumeDirectionQueue_def split: list.splits)

lemma consume_ate [simp]:
  "dir (consumeDirectionQueue (s\<lparr>ateOnLastStep := b\<rparr>)) = dir (consumeDirectionQueue s)"
  "queuedDirs (consumeDirectionQueue (s\<lparr>ateOnLastStep := b\<rparr>))
     = queuedDirs (consumeDirectionQueue s)"
  by (simp_all add: consumeDirectionQueue_def split: list.splits)

lemma nextHead_ate [simp]:
  "nextHead (consumeDirectionQueue (s\<lparr>ateOnLastStep := b\<rparr>))
     = nextHead (consumeDirectionQueue s)"
  by (simp add: nextHead_def split: list.splits)

lemma isSelfCollision_cong:
  "snake s' = snake s \<Longrightarrow> occupied s' = occupied s \<Longrightarrow>
   isSelfCollision s' nx ny w = isSelfCollision s nx ny w"
  by (simp add: isSelfCollision_def)

lemma isWallCollision_cong:
  "grid s' = grid s \<Longrightarrow> isWallCollision s' nx ny = isWallCollision s nx ny"
  by (simp add: isWallCollision_def)

lemma step_collision:
  assumes "food s = Some f"
    and "nextHead (consumeDirectionQueue s) = Inr (nx, ny)"
    and "isWallCollision s nx ny \<or> isSelfCollision s nx ny (nx = fst f \<and> ny = snd f)"
  shows "step t rs s =
           Inr ((consumeDirectionQueue (s\<lparr>ateOnLastStep := False\<rparr>))
                   \<lparr>gameOver := True, endedAt := Some t\<rparr>, rs)"
proof -
  let ?s1 = "consumeDirectionQueue (s\<lparr>ateOnLastStep := False\<rparr>)"
  have w: "isWallCollision ?s1 nx ny = isWallCollision s nx ny"
    by (rule isWallCollision_cong) simp
  have c: "isSelfCollision ?s1 nx ny b = isSelfCollision s nx ny b" for b
    by (rule isSelfCollision_cong) simp_all
  show ?thesis
    using assms by (simp add: step_def w c)
qed

lemma rebuild_fields [simp]:
  "grid (rebuildOccupied s) = grid s"
  "snake (rebuildOccupied s) = snake s"
  "food (rebuildOccupied s) = food s"
  "dir (rebuildOccupied s) = dir s"
  "queuedDirs (rebuildOccupied s) = queuedDirs s"
  "score (rebuildOccupied s) = score s"
  "started (rebuildOccupied s) = started s"
  "gameOver (rebuildOccupied s) = gameOver s"
  by (simp_all add: rebuildOccupied_def)

lemma fold_insert_set: "fold (\<lambda>p occ. insert (posKey (fst p) (snd p)) occ) xs A = set xs \<union> A"
  by (induction xs arbitrary: A) (auto simp: posKey_def)

lemma rebuild_occupied [simp]: "occupied (rebuildOccupied s) = set (snake s)"
  by (simp add: rebuildOccupied_def fold_insert_set)

lemma queueDir_None [simp]: "queueDir None s = s"
  by (simp add: queueDir_def)

lemma queueDir_grid [simp]: "grid (queueDir nd s) = grid s"
  by (simp add: queueDir_def Let_def split: option.splits)

lemma grow_fields [simp]:
  "dir (growGridIfNeeded s) = dir s"
  "queuedDirs (growGridIfNeeded s) = queuedDirs s"
  "food (growGridIfNeeded s) = food s"
  "score (growGridIfNeeded s) = score s"
  "started (growGridIfNeeded s) = started s"
  "gameOver (growGridIfNeeded s) = gameOver s"
  "length (snake (growGridIfNeeded s)) = length (snake s)"
  by (simp_all add: growGridIfNeeded_def Let_def)

lemma grow_snake_Nil [simp]: "snake (growGridIfNeeded s) = [] \<longleftrightarrow> snake s = []"
  using grow_fields(7) [of s] by (metis length_0_conv)

lemma grow_grid:
  "grid (growGridIfNeeded s) =
     (if of_nat (length (snake s)) \<ge> of_int (grid s ^ 2) * (4 / 10 :: rat) \<and> grid s < 36
      then grid s + 2 else grid s)"
  by (simp add: growGridIfNeeded_def Let_def)

lemma grow_index:
  "occupied s = set (snake s) \<Longrightarrow>
   occupied (growGridIfNeeded s) = set (snake (growGridIfNeeded s))"
  by (simp add: growGridIfNeeded_def Let_def)

lemma consume_lastStepAt [simp]:
  "dir (consumeDirectionQueue (s\<lparr>lastStepAt := x\<rparr>)) = dir (consumeDirectionQueue s)"
  by (simp add: consumeDirectionQueue_def split: list.splits)

lemma queueDir_dir [simp]: "dir (queueDir nd s) = dir s"
  by (simp add: queueDir_def Let_def split: option.splits)

subsection \<open>A returning step\<close>

text \<open>What a returning step does to the fields the invariants speak of.\<close>

lemma step_effect:
  assumes "step t rs s = Inr (s', rs')"
  shows "dir s' = dir (consumeDirectionQueue s)"
    and "queuedDirs s' = queuedDirs (consumeDirectionQueue s)"
    and "started s' = started s"
    and "food s' \<noteq> None"
    and "snake s \<noteq> []"
    and "snake s' \<noteq> []"
    and "grid s' = grid s \<or>
         (grid s' = grid s + 2 \<and> grid s < 36
          \<and> of_nat (length (snake s) + 1) \<ge> of_int (grid s ^ 2) * (4 / 10 :: rat))"
  using assms
  by (auto simp: step_def Let_def nextHead_def grow_grid
           split: sum.splits option.splits list.splits if_splits prod.splits)

lemma step_grid:
  assumes "step t rs s = Inr (s', rs')"
  shows "grid s' = grid s \<or>
         (grid s' = grid s + 2 \<and> grid s < 36
          \<and> of_int (grid s ^ 2) * (4 / 10 :: rat) \<le> of_nat (length (snake s')))"
  using assms
  by (auto simp: step_def Let_def nextHead_def grow_grid
           split: sum.splits option.splits list.splits if_splits prod.splits)

lemma step_no_collision:
  assumes "food s = Some f"
    and "nextHead (consumeDirectionQueue s) = Inr (nx, ny)"
    and "\<not> isWallCollision s nx ny"
    and "\<not> isSelfCollision s nx ny (nx = fst f \<and> ny = snd f)"
  shows "step t rs s =
    (let s1 = consumeDirectionQueue (s\<lparr>ateOnLastStep := False\<rparr>);
         s3 = s1\<lparr>snake := (nx, ny) # snake s1, occupied := insert (nx, ny) (occupied s1)\<rparr>
     in if nx = fst f \<and> ny = snd f
        then (let s4 = growGridIfNeeded (s3\<lparr>score := score s3 + 1\<rparr>)
              in case spawnFood s4 rs of
                   Inl e \<Rightarrow> Inl e
                 | Inr (pos, rs') \<Rightarrow> Inr (s4\<lparr>food := Some pos, ateOnLastStep := True\<rparr>, rs'))
        else Inr (s3\<lparr>snake := butlast (snake s3),
                      occupied := occupied s3 - {last (snake s3)}\<rparr>, rs))"
proof -
  let ?s1 = "consumeDirectionQueue (s\<lparr>ateOnLastStep := False\<rparr>)"
  have w: "isWallCollision ?s1 nx ny = isWallCollision s nx ny"
    by (rule isWallCollision_cong) simp
  have c: "isSelfCollision ?s1 nx ny b = isSelfCollision s nx ny b" for b
    by (rule isSelfCollision_cong) simp_all
  show ?thesis
    using assms by (simp add: step_def w c Let_def posKey_def)
qed



section \<open>Placing the food\<close>

text \<open>
  With \<open>Math.random()\<close> in \<open>[0, 1)\<close> and a grid size between 1 and \<open>2\<^sup>3\<^sup>1\<close>, the cell
  that \<open>spawnFood\<close> returns is on the board and not in the occupancy index; and the call
  returns exactly when the draws hold a free pair.
\<close>

lemma toInt32_draw:
  assumes "0 \<le> r" and "r < 1" and "0 < g" and "g \<le> 2 ^ 31"
  shows "0 \<le> toInt32 (r * of_int g) \<and> toInt32 (r * of_int g) < g"
proof -
  let ?v = "r * of_int g"
  have g0: "(0::rat) < of_int g" using assms(3) by simp
  have v0: "0 \<le> ?v" using assms(1) g0 by simp
  have "?v < 1 * of_int g" using assms(2) g0 by (rule mult_strict_right_mono)
  then have v1: "?v < of_int g" by simp
  have f0: "0 \<le> \<lfloor>?v\<rfloor>" using v0 by simp
  have f1: "\<lfloor>?v\<rfloor> < g" using v1 by (simp add: floor_less_iff)
  have "toInt32 ?v = (\<lfloor>?v\<rfloor> + 2 ^ 31) mod 2 ^ 32 - 2 ^ 31"
    using v0 by (simp add: toInt32_def)
  also have "(\<lfloor>?v\<rfloor> + 2 ^ 31) mod 2 ^ 32 = \<lfloor>?v\<rfloor> + 2 ^ 31"
    using f0 f1 assms(4) by (intro mod_pos_pos_trivial; simp; linarith)
  finally have "toInt32 ?v = \<lfloor>?v\<rfloor>" by simp
  then show ?thesis using f0 f1 by simp
qed

lemma spawnFood_sound:
  assumes "spawnFood s rs = Inr ((x, y), rs')"
    and "\<forall>r\<in>set rs. 0 \<le> r \<and> r < 1"
    and "0 < grid s" and "grid s \<le> 2 ^ 31"
  shows "0 \<le> x \<and> x < grid s \<and> 0 \<le> y \<and> y < grid s \<and> (x, y) \<notin> occupied s"
  using assms
proof (induction s rs rule: spawnFood.induct)
  case (1 s r1 r2 rs)
  show ?case
  proof (cases "posKey (toInt32 (r1 * of_int (grid s))) (toInt32 (r2 * of_int (grid s))) \<in> occupied s")
    case True
    then have "spawnFood s rs = Inr ((x, y), rs')" using "1.prems"(1) by simp
    then show ?thesis using "1.IH" True "1.prems" by simp
  next
    case False
    then have xy: "x = toInt32 (r1 * of_int (grid s))" "y = toInt32 (r2 * of_int (grid s))"
      using "1.prems"(1) by simp_all
    have r: "0 \<le> r1" "r1 < 1" "0 \<le> r2" "r2 < 1" using "1.prems"(2) by simp_all
    show ?thesis
      using toInt32_draw [OF r(1,2) "1.prems"(3,4)] toInt32_draw [OF r(3,4) "1.prems"(3,4)]
        False
      by (simp add: xy posKey_def)
  qed
qed simp_all

lemma spawnFood_free:
  "spawnFood s rs = Inr (pos, rs') \<Longrightarrow> pos \<notin> occupied s"
  by (induction s rs rule: spawnFood.induct) (auto simp: Let_def posKey_def split: if_splits)

lemma freeDraw_Cons2:
  "freeDraw s (r1 # r2 # rs) \<longleftrightarrow>
     (toInt32 (r1 * of_int (grid s)), toInt32 (r2 * of_int (grid s))) \<notin> occupied s
     \<or> freeDraw s rs"
proof
  assume "freeDraw s (r1 # r2 # rs)"
  then obtain k where k: "2 * k + 1 < length (r1 # r2 # rs)"
    "(toInt32 ((r1 # r2 # rs) ! (2 * k) * of_int (grid s)),
      toInt32 ((r1 # r2 # rs) ! (2 * k + 1) * of_int (grid s))) \<notin> occupied s"
    unfolding freeDraw_def by blast
  show "(toInt32 (r1 * of_int (grid s)), toInt32 (r2 * of_int (grid s))) \<notin> occupied s
     \<or> freeDraw s rs"
  proof (cases k)
    case 0
    then show ?thesis using k by simp
  next
    case (Suc j)
    then have "2 * j + 1 < length rs" using k(1) by simp
    moreover have "(toInt32 (rs ! (2 * j) * of_int (grid s)),
        toInt32 (rs ! (2 * j + 1) * of_int (grid s))) \<notin> occupied s"
      using k(2) Suc by simp
    ultimately show ?thesis unfolding freeDraw_def by blast
  qed
next
  assume "(toInt32 (r1 * of_int (grid s)), toInt32 (r2 * of_int (grid s))) \<notin> occupied s
     \<or> freeDraw s rs"
  then show "freeDraw s (r1 # r2 # rs)"
  proof
    assume "(toInt32 (r1 * of_int (grid s)), toInt32 (r2 * of_int (grid s))) \<notin> occupied s"
    then show ?thesis unfolding freeDraw_def by (intro exI [of _ 0]) simp
  next
    assume "freeDraw s rs"
    then obtain k where "2 * k + 1 < length rs"
      "(toInt32 (rs ! (2 * k) * of_int (grid s)),
        toInt32 (rs ! (2 * k + 1) * of_int (grid s))) \<notin> occupied s"
      unfolding freeDraw_def by blast
    then show ?thesis unfolding freeDraw_def by (intro exI [of _ "Suc k"]) simp
  qed
qed

lemma freeDraw_short [simp]: "\<not> freeDraw s []" "\<not> freeDraw s [r]"
  by (simp_all add: freeDraw_def)

lemma spawnFood_returns: "(\<exists>pos rs'. spawnFood s rs = Inr (pos, rs')) \<longleftrightarrow> freeDraw s rs"
proof (induction s rs rule: spawnFood.induct)
  case (1 s r1 r2 rs)
  then show ?case by (simp add: freeDraw_Cons2 posKey_def Let_def)
qed simp_all

lemma freeDraw_cong:
  "grid s = grid s' \<Longrightarrow> occupied s = occupied s' \<Longrightarrow> freeDraw s rs = freeDraw s' rs"
  by (simp add: freeDraw_def)

lemma resetGame_returns:
  "(\<exists>s' rs'. resetGame t rs s = Inr (s', rs')) \<longleftrightarrow> freeDraw fresh rs"
proof -
  let ?s4 = "rebuildOccupied (s\<lparr>grid := 8, stepMs := 150 * (15 / of_int 8),
      snake := [(3, 3), (2, 3), (1, 3)], dir := (1, 0), queuedDirs := []\<rparr>)"
  have "(\<exists>s' rs'. resetGame t rs s = Inr (s', rs')) \<longleftrightarrow> (\<exists>pos rs'. spawnFood ?s4 rs = Inr (pos, rs'))"
    by (auto simp: resetGame_def Let_def split: sum.splits)
  also have "\<dots> \<longleftrightarrow> freeDraw ?s4 rs" by (rule spawnFood_returns)
  also have "\<dots> \<longleftrightarrow> freeDraw fresh rs"
    by (rule freeDraw_cong) (auto simp: fresh_def)
  finally show ?thesis .
qed

lemma resetGame_result:
  assumes "resetGame t rs s = Inr (s', rs')"
  shows "started s' \<and> \<not> gameOver s' \<and> score s' = 0 \<and> grid s' = 8
       \<and> snake s' = [(3, 3), (2, 3), (1, 3)] \<and> dir s' = (1, 0) \<and> queuedDirs s' = []
       \<and> occupied s' = set (snake s') \<and> (\<exists>p. food s' = Some p \<and> p \<notin> occupied s')"
  using assms
  by (auto simp: resetGame_def Let_def split: sum.splits dest!: spawnFood_free)

section \<open>What holds in every reachable state\<close>

lemma resetGame_wellFormed: "resetGame t rs s = Inr (s', rs') \<Longrightarrow> wellFormed s'"
  by (auto simp: resetGame_def wellFormed_def unitDir_def Let_def split: sum.splits)

lemma resetToWelcome_wellFormed: "resetToWelcome t rs s = Inr (s', rs') \<Longrightarrow> wellFormed s'"
  by (auto simp: resetToWelcome_def wellFormed_def unitDir_def Let_def split: sum.splits)

lemma turnsOk_snoc:
  "turnsOk (ds @ [a]) \<Longrightarrow> \<not> reverses a b \<Longrightarrow> turnsOk (ds @ [a, b])"
  by (induction ds rule: turnsOk.induct) auto

lemma turnsOk_append_last:
  assumes "turnsOk (d # q)" and "\<not> reverses (if q \<noteq> [] then last q else d) nd"
  shows "turnsOk (d # q @ [nd])"
proof (cases q rule: rev_cases)
  case Nil
  then show ?thesis using assms by simp
next
  case (snoc q' a)
  then show ?thesis using assms turnsOk_snoc [of "d # q'" a nd] by simp
qed

lemma queueDir_wellFormed: "wellFormed s \<Longrightarrow> unitDir nd \<Longrightarrow> wellFormed (queueDir (Some nd) s)"
  unfolding queueDir_def wellFormed_def Let_def
  by (auto simp: reverses_def intro!: turnsOk_append_last [of "dir s" "queuedDirs s" nd, simplified])

lemma consume_dirs:
  assumes "list_all unitDir (dir s # queuedDirs s)" and "turnsOk (dir s # queuedDirs s)"
    and "length (queuedDirs s) \<le> 2"
  shows "list_all unitDir (dir (consumeDirectionQueue s) # queuedDirs (consumeDirectionQueue s))"
    and "turnsOk (dir (consumeDirectionQueue s) # queuedDirs (consumeDirectionQueue s))"
    and "length (queuedDirs (consumeDirectionQueue s)) \<le> 2"
    and "\<not> reverses (dir (consumeDirectionQueue s)) (dir s)"
  using assms
  by (auto simp: consumeDirectionQueue_def reverses_def unitDir_def split: list.splits)

lemma step_wellFormed:
  assumes "wellFormed s" and "step t rs s = Inr (s', rs')"
  shows "wellFormed s'"
proof -
  note e = step_effect [OF assms(2)]
  have d: "list_all unitDir (dir s # queuedDirs s)" "turnsOk (dir s # queuedDirs s)"
    "length (queuedDirs s) \<le> 2"
    using assms(1) by (simp_all add: wellFormed_def)
  have g: "even (grid s')" "8 \<le> grid s'" "grid s' \<le> 36"
    using e(7) assms(1) by (auto simp: wellFormed_def)
  show ?thesis
    unfolding wellFormed_def e(1,2)
    using g e(4,6) consume_dirs(1-3) [OF d] by simp
qed

lemma wellFormed_lastStepAt [simp]: "wellFormed (s\<lparr>lastStepAt := x\<rparr>) = wellFormed s"
  by (simp add: wellFormed_def)

lemma loop_wellFormed:
  "wellFormed s \<Longrightarrow> loop ts t rs s = Inr (s', rs') \<Longrightarrow> wellFormed s'"
  by (auto simp: loop_def Let_def split: if_splits dest: step_wellFormed [rotated])

lemma inputOutcome_intros:
  "inputOutcome t rs s (resetGame t rs s)"
  "inputOutcome t rs s (Inr (s, rs))"
  "inputOutcome t rs s (Inr (queueDir (Some (0, -1)) s, rs))"
  "inputOutcome t rs s (Inr (queueDir (Some (0, 1)) s, rs))"
  "inputOutcome t rs s (Inr (queueDir (Some (-1, 0)) s, rs))"
  "inputOutcome t rs s (Inr (queueDir (Some (1, 0)) s, rs))"
  unfolding inputOutcome_def unitDir_def by blast+

lemma onKeyDown_cases: "inputOutcome t rs s (onKeyDown k t rs s)"
  unfolding onKeyDown_def by (simp only: inputOutcome_intros if_True if_False split: if_split) simp

lemma onTouchEnd_cases: "inputOutcome t rs s (onTouchEnd dx dy t rs s)"
  unfolding onTouchEnd_def Let_def by (simp only: inputOutcome_intros if_True if_False split: if_split) simp

lemma inputOutcome_wellFormed:
  assumes "inputOutcome t rs s r" and "wellFormed s" and "r = Inr (s', rs')"
  shows "wellFormed s'"
  using assms unfolding inputOutcome_def
  by (auto dest: resetGame_wellFormed [OF sym] intro: queueDir_wellFormed)

lemma handle_wellFormed:
  assumes "wellFormed s" and "handle e t rs s = Inr (s', rs')"
  shows "wellFormed s'"
proof (cases e)
  case (Frame ts)
  then show ?thesis using assms loop_wellFormed by simp
next
  case (KeyDown k)
  then show ?thesis
    using assms inputOutcome_wellFormed [OF onKeyDown_cases [of t rs s k] assms(1)] by simp
next
  case PlayClick
  then show ?thesis using assms resetGame_wellFormed by simp
next
  case (TouchEnd dx dy)
  then show ?thesis
    using assms inputOutcome_wellFormed [OF onTouchEnd_cases [of t rs s dx dy] assms(1)] by simp
qed

lemma reachable_wellFormed: "reachable s \<Longrightarrow> wellFormed s"
  by (induction rule: reachable.induct) (auto dest: resetToWelcome_wellFormed handle_wellFormed)

lemma run_reachable: "reachable s \<Longrightarrow> run es s = Inr s' \<Longrightarrow> reachable s'"
proof (induction es arbitrary: s)
  case Nil
  then show ?case by simp
next
  case (Cons a es)
  obtain e t rs where a: "a = (e, t, rs)" by (cases a)
  from Cons.prems(2) obtain s1 rs1 where h: "handle e t rs s = Inr (s1, rs1)"
    and r: "run es s1 = Inr s'"
    by (auto simp: a split: sum.splits)
  from reachable.event [OF Cons.prems(1) h] Cons.IH r show ?case by blast
qed

section \<open>The handlers between run starts\<close>

lemma onKeyDown_start:
  assumes "startsRun (KeyDown k) s"
  shows "onKeyDown k t rs s = resetGame t rs s"
proof -
  from assms have k: "k = '' '' \<or> k = ''spacebar'' \<or> k = ''space''"
    and p: "gameOver s \<or> \<not> started s" by simp_all
  from k show ?thesis
  proof (elim disjE)
    assume "k = '' ''" then show ?thesis using p by (simp add: onKeyDown_def)
  next
    assume "k = ''spacebar''" then show ?thesis using p by (simp add: onKeyDown_def)
  next
    assume "k = ''space''" then show ?thesis using p by (simp add: onKeyDown_def)
  qed
qed

lemma onTouchEnd_start:
  "startsRun (TouchEnd dx dy) s \<Longrightarrow> onTouchEnd dx dy t rs s = resetGame t rs s"
  by (simp add: onTouchEnd_def)

lemma onTouchEnd_grid:
  assumes "\<not> startsRun (TouchEnd dx dy) s" and "onTouchEnd dx dy t rs s = Inr (s', rs')"
  shows "grid s' = grid s"
proof (cases "\<bar>dx\<bar> < 24 \<and> \<bar>dy\<bar> < 24")
  case True
  then have "onTouchEnd dx dy t rs s = Inr (s, rs)"
    using assms(1) by (simp add: onTouchEnd_def)
  then show ?thesis using assms(2) by simp
next
  case False
  then obtain nd where "onTouchEnd dx dy t rs s = Inr (queueDir (Some nd) s, rs)"
    by (simp add: onTouchEnd_def Let_def)
  then show ?thesis using assms(2) by auto
qed

lemma onKeyDown_grid:
  assumes "\<not> startsRun (KeyDown k) s" and "onKeyDown k t rs s = Inr (s', rs')"
  shows "grid s' = grid s"
proof (cases "k = '' '' \<or> k = ''spacebar'' \<or> k = ''space''")
  case True
  then have p: "\<not> (gameOver s \<or> \<not> started s)" using assms(1) by auto
  from True have "onKeyDown k t rs s = Inr (s, rs)"
  proof (elim disjE)
    assume "k = '' ''" then show ?thesis using p by (simp add: onKeyDown_def)
  next
    assume "k = ''spacebar''" then show ?thesis using p by (simp add: onKeyDown_def)
  next
    assume "k = ''space''" then show ?thesis using p by (simp add: onKeyDown_def)
  qed
  then show ?thesis using assms(2) by simp
next
  case False
  define P where "P r \<longleftrightarrow> r = Inr (s, rs) \<or> (\<exists>nd. r = Inr (queueDir nd s, rs))"
    for r :: "error + (state \<times> rat list)"
  have i: "P (Inr (s, rs))" "\<And>nd. P (Inr (queueDir nd s, rs))"
    unfolding P_def by blast+
  have "P (onKeyDown k t rs s)"
    using False unfolding onKeyDown_def by (simp add: i)
  then show ?thesis using assms(2) unfolding P_def by auto
qed



lemma loop_grid:
  assumes "loop ts t rs s = Inr (s', rs')"
  shows "grid s' = grid s \<or>
         (grid s' = grid s + 2 \<and> grid s < 36
          \<and> of_int (grid s ^ 2) * (4 / 10 :: rat) \<le> of_nat (length (snake s')))"
proof (cases "started s \<and> \<not> gameOver s
    \<and> ts - lastStepAt (if lastStepAt s = 0 then s\<lparr>lastStepAt := ts\<rparr> else s)
        \<ge> stepMs s")
  case True
  then have "step t rs ((if lastStepAt s = 0 then s\<lparr>lastStepAt := ts\<rparr> else s)
      \<lparr>lastStepAt := ts\<rparr>) = Inr (s', rs')"
    using assms by (simp add: loop_def Let_def split: if_splits)
  from step_grid [OF this] show ?thesis by (simp split: if_splits)
next
  case False
  then have "grid s' = grid s"
    using assms by (auto simp: loop_def Let_def split: if_splits)
  then show ?thesis ..
qed


lemma queueDir_length:
  "length (queuedDirs s) \<le> 2 \<Longrightarrow> length (queuedDirs (queueDir nd s)) \<le> 2"
  by (auto simp: queueDir_def Let_def split: option.splits)

lemma fold_queueDir_length:
  "length (queuedDirs s) \<le> 2 \<Longrightarrow> length (queuedDirs (fold queueDir nds s)) \<le> 2"
  by (induction nds arbitrary: s) (simp_all add: queueDir_length)

section \<open>The concrete runs, evaluated\<close>

lemma boot_idle: "resetToWelcome 0 [0, 0] state0 = Inr (idle, [])"
  by code_simp

lemma start_fresh: "resetGame 0 [1 / 2, 3 / 8] idle = Inr (fresh, [])"
  by code_simp

lemma idle_reachable: "reachable idle"
  using boot_idle by (rule reachable.boot)

lemma fresh_reachable: "reachable fresh"
  using reachable.event [OF idle_reachable, of PlayClick 0 "[1 / 2, 3 / 8]" fresh "[]"] start_fresh
  by simp

lemma chase_run: "run chase_trace fresh = Inr chase_before"
  by code_simp

lemma chase_reachable: "reachable chase_before"
  using run_reachable [OF fresh_reachable chase_run] .

lemma chase_tick: "loop 5000 5000 [] chase_before = Inr (chase_after, [])"
  by code_simp

lemma cross_run: "run cross_trace fresh = Inr cross_before"
  by code_simp

lemma cross_reachable: "reachable cross_before"
  using run_reachable [OF fresh_reachable cross_run] .

lemma cross_tick: "loop 12000 12000 [] cross_before = Inr (cross_after, [])"
  by code_simp

lemma spawn_run: "run spawn_trace fresh = Inr spawn_before"
  by code_simp

lemma spawn_reachable: "reachable spawn_before"
  using run_reachable [OF fresh_reachable spawn_run] .

lemma spawn_tick: "loop 9000 9000 [1 / 2, 3 / 8] spawn_before = Inr (spawn_after, [])"
  by code_simp

lemma grow_run: "run grow_trace fresh = Inr grow_before"
  by code_simp

lemma grow_reachable: "reachable grow_before"
  using run_reachable [OF fresh_reachable grow_run] .

lemma grow_tick: "loop 24000 24000 [0, 0] grow_before = Inr (grow_after, [])"
  by code_simp

lemma wall_run: "run wall_trace fresh = Inr wall_before"
  by code_simp

lemma wall_reachable: "reachable wall_before"
  using run_reachable [OF fresh_reachable wall_run] .

lemma wall_tick: "loop 6000 6000 [] wall_before = Inr (wall_after, [])"
  by code_simp




lemma bite_run: "run bite_trace fresh = Inr bite_before"
  by code_simp

lemma bite_reachable: "reachable bite_before"
  using run_reachable [OF fresh_reachable bite_run] .

lemma bite_tick: "loop 6000 6000 [] bite_before = Inr (bite_after, [])"
  by code_simp

section \<open>The occupancy index after a step\<close>

text \<open>
  A step keeps the occupancy index equal to the set of the snake's cells whenever the
  cells are distinct and the candidate head is not the tail cell.
\<close>

lemma set_butlast_distinct:
  "distinct xs \<Longrightarrow> xs \<noteq> [] \<Longrightarrow> set (butlast xs) = set xs - {last xs}"
  by (cases xs rule: rev_cases) auto

lemma step_index_kept:
  assumes "occupied s = set (snake s)" and "distinct (snake s)"
    and "nextHead (consumeDirectionQueue s) = Inr (nx, ny)"
    and "(nx, ny) \<noteq> last (snake s)"
    and "step t rs s = Inr (s', rs')"
  shows "occupied s' = set (snake s')"
proof -
  have ne: "snake s \<noteq> []" using assms(3) by (auto simp: nextHead_def)
  obtain f where f: "food s = Some f"
    using assms(3,5) by (cases "food s") (auto simp: step_def Let_def)
  show ?thesis
  proof (cases "isWallCollision s nx ny \<or> isSelfCollision s nx ny (nx = fst f \<and> ny = snd f)")
    case True
    from step_collision [OF f assms(3) True, of t rs] assms(1,5) show ?thesis by auto
  next
    case False
    then have n: "\<not> isWallCollision s nx ny"
      "\<not> isSelfCollision s nx ny (nx = fst f \<and> ny = snd f)" by simp_all
    show ?thesis
    proof (cases "nx = fst f \<and> ny = snd f")
      case True
      have "occupied (growGridIfNeeded ((consumeDirectionQueue (s\<lparr>ateOnLastStep := False\<rparr>))
          \<lparr>snake := (nx, ny) # snake s, occupied := insert (nx, ny) (occupied s),
            score := score s + 1\<rparr>))
        = set (snake (growGridIfNeeded ((consumeDirectionQueue (s\<lparr>ateOnLastStep := False\<rparr>))
          \<lparr>snake := (nx, ny) # snake s, occupied := insert (nx, ny) (occupied s),
            score := score s + 1\<rparr>)))"
        by (rule grow_index) (simp add: assms(1))
      then show ?thesis
        using assms(5) True unfolding step_no_collision [OF f assms(3) n]
        by (auto simp: Let_def split: sum.splits)
    next
      case False
      then show ?thesis
        using assms(1,2,4,5) ne unfolding step_no_collision [OF f assms(3) n]
        by (auto simp: Let_def set_butlast_distinct)
    qed
  qed
qed

text \<open>
  Claim C1 says that in every reachable state of the Playing phase the occupancy index
  equals the set of the snake's cells when \<open>step\<close> returns, also on a tick where the head
  moves onto the cell the tail leaves. On the code this fails on exactly that tick:
  \<open>step\<close> adds the key of the new head and then deletes the key of the popped tail, which is
  the same key. In the reachable state \<open>chase_before\<close> the index equals the snake's cells
  and the candidate head is the tail cell \<open>(3, 3)\<close>; after the tick the snake is
  \<open>[(3,3), (3,4), (4,4), (4,3)]\<close> and the index is \<open>{(3,4), (4,4), (4,3)}\<close>, without the
  head.
\<close>

theorem tail_move_drops_head_cell:
  "reachable chase_before \<and> started chase_before \<and> \<not> gameOver chase_before
   \<and> occupied chase_before = set (snake chase_before)
   \<and> nextHead (consumeDirectionQueue chase_before) = Inr (last (snake chase_before))
   \<and> loop 5000 5000 [] chase_before = step 5000 [] (chase_before\<lparr>lastStepAt := 5000\<rparr>)
   \<and> step 5000 [] (chase_before\<lparr>lastStepAt := 5000\<rparr>) = Inr (chase_after, [])
   \<and> snake chase_after = [(3, 3), (3, 4), (4, 4), (4, 3)]
   \<and> occupied chase_after = {(3, 4), (4, 4), (4, 3)}
   \<and> occupied chase_after \<noteq> set (snake chase_after)"
proof -
  have "started chase_before \<and> \<not> gameOver chase_before
   \<and> occupied chase_before = set (snake chase_before)
   \<and> nextHead (consumeDirectionQueue chase_before) = Inr (last (snake chase_before))
   \<and> loop 5000 5000 [] chase_before = step 5000 [] (chase_before\<lparr>lastStepAt := 5000\<rparr>)
   \<and> step 5000 [] (chase_before\<lparr>lastStepAt := 5000\<rparr>) = Inr (chase_after, [])
   \<and> snake chase_after = [(3, 3), (3, 4), (4, 4), (4, 3)]
   \<and> occupied chase_after = {(3, 4), (4, 4), (4, 3)}
   \<and> occupied chase_after \<noteq> set (snake chase_after)"
    by code_simp
  with chase_reachable show ?thesis by blast
qed

section \<open>Self collision\<close>

text \<open>
  While the occupancy index equals the set of the snake's cells, \<open>isSelfCollision\<close>
  reports a candidate head on the snake unless it is the tail cell and the move does not
  eat.
\<close>

lemma isSelfCollision_on_snake:
  assumes "occupied s = set (snake s)" and "(nx, ny) \<in> set (snake s)"
  shows "isSelfCollision s nx ny willEat \<longleftrightarrow> \<not> (\<not> willEat \<and> last (snake s) = (nx, ny))"
proof -
  have "snake s \<noteq> []" using assms(2) by auto
  then show ?thesis
    using assms by (auto simp: isSelfCollision_def posKey_def prod_eq_iff)
qed

text \<open>
  Claim C2 says that \<open>isSelfCollision\<close> reports no collision for a candidate head on the
  snake exactly when it is the current tail cell and the move will not eat, and reports a
  collision on the tail cell when the move eats and on every interior cell. The function
  looks the candidate up in the occupancy index, and the index can miss a cell of the
  snake (claim C1). In the reachable state \<open>cross_before\<close> the candidate head \<open>(4, 3)\<close> is
  the fourth cell of the snake, not the tail \<open>(5, 4)\<close>, the move does not eat, and no
  collision is reported: the tick goes through and the snake holds \<open>(4, 3)\<close> twice.
\<close>

theorem body_cell_not_reported:
  "reachable cross_before \<and> started cross_before \<and> \<not> gameOver cross_before
   \<and> nextHead (consumeDirectionQueue cross_before) = Inr (4, 3)
   \<and> food cross_before = Some (0, 0)
   \<and> snake cross_before ! 3 = (4, 3) \<and> last (snake cross_before) = (5, 4)
   \<and> \<not> isSelfCollision (consumeDirectionQueue cross_before) 4 3 False
   \<and> loop 12000 12000 [] cross_before = Inr (cross_after, [])
   \<and> \<not> gameOver cross_after
   \<and> snake cross_after = [(4, 3), (3, 3), (3, 2), (4, 2), (4, 3), (4, 4)]"
proof -
  have "started cross_before \<and> \<not> gameOver cross_before
   \<and> nextHead (consumeDirectionQueue cross_before) = Inr (4, 3)
   \<and> food cross_before = Some (0, 0)
   \<and> snake cross_before ! 3 = (4, 3) \<and> last (snake cross_before) = (5, 4)
   \<and> \<not> isSelfCollision (consumeDirectionQueue cross_before) 4 3 False
   \<and> \<not> gameOver cross_after
   \<and> snake cross_after = [(4, 3), (3, 3), (3, 2), (4, 2), (4, 3), (4, 4)]"
    by code_simp
  with cross_reachable cross_tick show ?thesis by blast
qed

section \<open>Collisions end the run and freeze the board\<close>

text \<open>
  Claim C3. In a state of the Playing phase (\<open>started\<close> and not \<open>gameOver\<close>), let
  \<open>(nx, ny)\<close> be the candidate head that \<open>step\<close> computes after consuming the direction
  queue. If a coordinate of it is outside \<open>[0, grid)\<close>, at any of the four boundaries, or
  \<open>isSelfCollision\<close> reports a collision, then \<open>step\<close> returns with \<open>gameOver\<close> set (the
  GameOver phase), \<open>endedAt\<close> set to the clock reading, and the snake, the occupancy
  index, the score, the food cell and the grid size as they were.
\<close>

theorem step_collision_freezes:
  assumes "started s" and "\<not> gameOver s"
    and "food s = Some f"
    and "nextHead (consumeDirectionQueue s) = Inr (nx, ny)"
    and "(nx < 0 \<or> grid s \<le> nx \<or> ny < 0 \<or> grid s \<le> ny)
         \<or> isSelfCollision s nx ny (nx = fst f \<and> ny = snd f)"
  shows "\<exists>s'. step t rs s = Inr (s', rs) \<and> started s' \<and> gameOver s' \<and> endedAt s' = Some t
           \<and> snake s' = snake s \<and> occupied s' = occupied s \<and> score s' = score s
           \<and> food s' = food s \<and> grid s' = grid s"
proof -
  have "isWallCollision s nx ny \<or> isSelfCollision s nx ny (nx = fst f \<and> ny = snd f)"
    using assms(5) by (auto simp: isWallCollision_def)
  from step_collision [OF assms(3,4) this, of t rs] show ?thesis
    using assms(1) by simp
qed

text \<open>
  The theorem at the right-hand wall of the 8 by 8 board (\<open>x = gridSize\<close>), where the
  snake stays \<open>[(7,3), (6,3), (5,3), (4,3)]\<close> and the score stays 1, and at a self
  collision, where the head would enter the fourth cell of the snake.
\<close>

theorem step_collision_freezes_witness:
  "started wall_before \<and> \<not> gameOver wall_before \<and> food wall_before = Some (0, 0)
   \<and> nextHead (consumeDirectionQueue wall_before) = Inr (8, 3) \<and> grid wall_before \<le> 8
   \<and> snake wall_before = [(7, 3), (6, 3), (5, 3), (4, 3)] \<and> score wall_before = 1
   \<and> (\<exists>s'. step 6000 [] wall_before = Inr (s', []) \<and> started s' \<and> gameOver s'
          \<and> endedAt s' = Some 6000 \<and> snake s' = snake wall_before
          \<and> occupied s' = occupied wall_before \<and> score s' = score wall_before
          \<and> food s' = food wall_before \<and> grid s' = grid wall_before)
   \<and> started bite_before \<and> \<not> gameOver bite_before \<and> food bite_before = Some (0, 0)
   \<and> nextHead (consumeDirectionQueue bite_before) = Inr (4, 3)
   \<and> isSelfCollision bite_before 4 3 (4 = fst (0 :: int, 0 :: int) \<and> 3 = snd (0 :: int, 0 :: int))
   \<and> (\<exists>s'. step 6000 [] bite_before = Inr (s', []) \<and> started s' \<and> gameOver s'
          \<and> endedAt s' = Some 6000 \<and> snake s' = snake bite_before
          \<and> occupied s' = occupied bite_before \<and> score s' = score bite_before
          \<and> food s' = food bite_before \<and> grid s' = grid bite_before)"
proof -
  have v: "started wall_before \<and> \<not> gameOver wall_before \<and> food wall_before = Some (0, 0)
   \<and> nextHead (consumeDirectionQueue wall_before) = Inr (8, 3) \<and> grid wall_before \<le> 8
   \<and> snake wall_before = [(7, 3), (6, 3), (5, 3), (4, 3)] \<and> score wall_before = 1"
    by code_simp
  have b: "started bite_before \<and> \<not> gameOver bite_before \<and> food bite_before = Some (0, 0)
   \<and> nextHead (consumeDirectionQueue bite_before) = Inr (4, 3)
   \<and> isSelfCollision bite_before 4 3 (4 = fst (0 :: int, 0 :: int) \<and> 3 = snd (0 :: int, 0 :: int))"
    by code_simp
  from step_collision_freezes [of wall_before "(0, 0)" 8 3 6000 "[]"] v
  have w1: "\<exists>s'. step 6000 [] wall_before = Inr (s', []) \<and> started s' \<and> gameOver s'
          \<and> endedAt s' = Some 6000 \<and> snake s' = snake wall_before
          \<and> occupied s' = occupied wall_before \<and> score s' = score wall_before
          \<and> food s' = food wall_before \<and> grid s' = grid wall_before"
    by blast
  from step_collision_freezes [of bite_before "(0, 0)" 4 3 6000 "[]"] b
  have w2: "\<exists>s'. step 6000 [] bite_before = Inr (s', []) \<and> started s' \<and> gameOver s'
          \<and> endedAt s' = Some 6000 \<and> snake s' = snake bite_before
          \<and> occupied s' = occupied bite_before \<and> score s' = score bite_before
          \<and> food s' = food bite_before \<and> grid s' = grid bite_before"
    by blast
  from v b w1 w2 show ?thesis by blast
qed

section \<open>Phase transitions\<close>

text \<open>
  Claim C4 says that every phase transition, the one from Playing to GameOver on a
  collision included, fully reinitialises the snake, the grid, the score, the direction
  queue, the food and the occupancy index. The collision transition reinitialises
  nothing: in the reachable state \<open>wall_before\<close>, with score 1 and the snake at the
  right-hand wall, the tick ends the run and leaves the score 1 and the snake where it was.
\<close>

theorem collision_reinitialises_nothing:
  "reachable wall_before \<and> started wall_before \<and> \<not> gameOver wall_before
   \<and> loop 6000 6000 [] wall_before = Inr (wall_after, [])
   \<and> started wall_after \<and> gameOver wall_after
   \<and> score wall_after = 1 \<and> score wall_after \<noteq> 0
   \<and> snake wall_after = [(7, 3), (6, 3), (5, 3), (4, 3)]
   \<and> snake wall_after \<noteq> [(3, 3), (2, 3), (1, 3)]"
proof -
  have "started wall_before \<and> \<not> gameOver wall_before
   \<and> started wall_after \<and> gameOver wall_after
   \<and> score wall_after = 1 \<and> score wall_after \<noteq> 0
   \<and> snake wall_after = [(7, 3), (6, 3), (5, 3), (4, 3)]
   \<and> snake wall_after \<noteq> [(3, 3), (2, 3), (1, 3)]"
    by code_simp
  with wall_reachable wall_tick show ?thesis by blast
qed

text \<open>
  Claim C4 as amended. The transitions into Playing, from Welcome on a start input and
  from GameOver on a restart input (a space key, a tap, the play button), call
  \<open>resetGame\<close>. That call returns exactly when the draws hold a pair that lands off the
  fresh snake, and it leaves the phase Playing, the score 0, the grid size 8, the snake
  \<open>[(3,3), (2,3), (1,3)]\<close> heading right, the direction queue empty, the occupancy index
  equal to the set of the snake's cells and the food on a cell outside it. The transition
  from Playing to GameOver on a collision leaves the snake, the grid size, the score, the
  food and the occupancy index as they were.
\<close>

theorem start_and_restart_reinitialise:
  "((\<not> started s \<or> gameOver s) \<longrightarrow>
       (k \<in> set ['' '', ''spacebar'', ''space''] \<longrightarrow> onKeyDown k t rs s = resetGame t rs s)
     \<and> (\<bar>dx\<bar> < 24 \<and> \<bar>dy\<bar> < 24 \<longrightarrow> onTouchEnd dx dy t rs s = resetGame t rs s))
   \<and> handle PlayClick t rs s = resetGame t rs s
   \<and> ((\<exists>s' rs'. resetGame t rs s = Inr (s', rs')) \<longleftrightarrow> freeDraw fresh rs)
   \<and> (\<forall>s' rs'. resetGame t rs s = Inr (s', rs') \<longrightarrow>
         started s' \<and> \<not> gameOver s' \<and> score s' = 0 \<and> grid s' = 8
         \<and> snake s' = [(3, 3), (2, 3), (1, 3)] \<and> dir s' = (1, 0) \<and> queuedDirs s' = []
         \<and> occupied s' = set (snake s') \<and> (\<exists>p. food s' = Some p \<and> p \<notin> occupied s'))
   \<and> (started p \<and> \<not> gameOver p \<and> food p = Some f
        \<and> nextHead (consumeDirectionQueue p) = Inr (nx, ny)
        \<and> (isWallCollision p nx ny \<or> isSelfCollision p nx ny (nx = fst f \<and> ny = snd f))
      \<longrightarrow> (\<exists>p'. step t rs p = Inr (p', rs) \<and> started p' \<and> gameOver p'
             \<and> snake p' = snake p \<and> grid p' = grid p \<and> score p' = score p
             \<and> food p' = food p \<and> occupied p' = occupied p))"
proof -
  have a: "(\<not> started s \<or> gameOver s) \<longrightarrow>
       (k \<in> set ['' '', ''spacebar'', ''space''] \<longrightarrow> onKeyDown k t rs s = resetGame t rs s)
     \<and> (\<bar>dx\<bar> < 24 \<and> \<bar>dy\<bar> < 24 \<longrightarrow> onTouchEnd dx dy t rs s = resetGame t rs s)"
    using onKeyDown_start [of k s t rs] onTouchEnd_start [of dx dy s t rs] by auto
  have b: "handle PlayClick t rs s = resetGame t rs s" by simp
  have c: "started p \<and> \<not> gameOver p \<and> food p = Some f
        \<and> nextHead (consumeDirectionQueue p) = Inr (nx, ny)
        \<and> (isWallCollision p nx ny \<or> isSelfCollision p nx ny (nx = fst f \<and> ny = snd f))
      \<longrightarrow> (\<exists>p'. step t rs p = Inr (p', rs) \<and> started p' \<and> gameOver p'
             \<and> snake p' = snake p \<and> grid p' = grid p \<and> score p' = score p
             \<and> food p' = food p \<and> occupied p' = occupied p)"
    using step_collision [of p f nx ny t rs] by auto
  show ?thesis
    using a b c resetGame_returns [of t rs s] resetGame_result [of t rs s] by blast
qed

text \<open>
  The amended claim at the state \<open>wall_after\<close>, game over with score 1: each restart
  input gives the fresh state; and at \<open>wall_before\<close>, where the collision happens.
\<close>

theorem start_and_restart_reinitialise_witness:
  "gameOver wall_after \<and> score wall_after = 1
   \<and> onKeyDown '' '' 7000 [1 / 2, 3 / 8] wall_after = Inr (fresh\<lparr>runStartAt := 7000\<rparr>, [])
   \<and> onTouchEnd 3 (-2) 7000 [1 / 2, 3 / 8] wall_after = Inr (fresh\<lparr>runStartAt := 7000\<rparr>, [])
   \<and> handle PlayClick 7000 [1 / 2, 3 / 8] wall_after = Inr (fresh\<lparr>runStartAt := 7000\<rparr>, [])
   \<and> freeDraw fresh [1 / 2, 3 / 8]
   \<and> score (fresh\<lparr>runStartAt := 7000\<rparr>) = 0 \<and> grid (fresh\<lparr>runStartAt := 7000\<rparr>) = 8
   \<and> occupied (fresh\<lparr>runStartAt := 7000\<rparr>) = set (snake (fresh\<lparr>runStartAt := 7000\<rparr>))
   \<and> started wall_before \<and> \<not> gameOver wall_before \<and> food wall_before = Some (0, 0)
   \<and> nextHead (consumeDirectionQueue wall_before) = Inr (8, 3)
   \<and> isWallCollision wall_before 8 3
   \<and> (\<exists>p'. step 7000 [1 / 2, 3 / 8] wall_before = Inr (p', [1 / 2, 3 / 8]) \<and> gameOver p'
          \<and> snake p' = snake wall_before \<and> score p' = score wall_before)"
proof -
  have v: "gameOver wall_after \<and> score wall_after = 1
   \<and> resetGame 7000 [1 / 2, 3 / 8] wall_after = Inr (fresh\<lparr>runStartAt := 7000\<rparr>, [])
   \<and> started wall_before \<and> \<not> gameOver wall_before \<and> food wall_before = Some (0, 0)
   \<and> nextHead (consumeDirectionQueue wall_before) = Inr (8, 3)
   \<and> isWallCollision wall_before 8 3"
    by code_simp
  have k: "'' '' \<in> set ['' '', ''spacebar'', ''space'']" "\<bar>3 :: rat\<bar> < 24 \<and> \<bar>- 2 :: rat\<bar> < 24"
    by simp_all
  from start_and_restart_reinitialise
         [of wall_after "'' ''" 7000 "[1 / 2, 3 / 8]" 3 "-2" wall_before "(0, 0)" 8 3] v k
  show ?thesis by (auto simp del: set_simps)
qed

section \<open>The direction queue\<close>

text \<open>
  Claim C5 says that \<open>queueDir\<close> with a direction that exactly reverses the active
  direction leaves the queue unchanged. The code compares the candidate with the last
  queued direction when there is one: with the active direction right and a turn down
  queued, the candidate left, which reverses the active direction, is queued.
\<close>

theorem reverse_of_active_dir_is_queued:
  "reachable (queueDir (Some (0, 1)) fresh)
   \<and> dir (queueDir (Some (0, 1)) fresh) = (1, 0)
   \<and> queuedDirs (queueDir (Some (0, 1)) fresh) = [(0, 1)]
   \<and> fst (dir (queueDir (Some (0, 1)) fresh)) + fst (-1 :: int, 0 :: int) = 0
   \<and> snd (dir (queueDir (Some (0, 1)) fresh)) + snd (-1 :: int, 0 :: int) = 0
   \<and> queuedDirs (queueDir (Some (-1, 0)) (queueDir (Some (0, 1)) fresh)) = [(0, 1), (-1, 0)]"
proof -
  have "handle (KeyDown ''arrowdown'') 500 [] fresh = Inr (queueDir (Some (0, 1)) fresh, [])"
    by (simp add: onKeyDown_def)
  with fresh_reachable have "reachable (queueDir (Some (0, 1)) fresh)"
    by (rule reachable.event)
  moreover have "dir (queueDir (Some (0, 1)) fresh) = (1, 0)
   \<and> queuedDirs (queueDir (Some (0, 1)) fresh) = [(0, 1)]
   \<and> fst (dir (queueDir (Some (0, 1)) fresh)) + fst (-1 :: int, 0 :: int) = 0
   \<and> snd (dir (queueDir (Some (0, 1)) fresh)) + snd (-1 :: int, 0 :: int) = 0
   \<and> queuedDirs (queueDir (Some (-1, 0)) (queueDir (Some (0, 1)) fresh)) = [(0, 1), (-1, 0)]"
    by code_simp
  ultimately show ?thesis by blast
qed

text \<open>
  Claim C5 as amended. \<open>queueDir\<close> leaves the state unchanged when the candidate exactly
  reverses the most recently queued direction, or the active direction when nothing is
  queued; and after any sequence of \<open>queueDir\<close> calls, from a state with at most 2 queued
  directions, as every reachable state is, the queue holds at most 2 entries.
\<close>

theorem queueDir_rejects_reverse_of_last:
  "(queuedDirs s = [] \<and> fst (dir s) + fst nd = 0 \<and> snd (dir s) + snd nd = 0
      \<longrightarrow> queueDir (Some nd) s = s)
   \<and> (queuedDirs s \<noteq> [] \<and> fst (last (queuedDirs s)) + fst nd = 0
        \<and> snd (last (queuedDirs s)) + snd nd = 0
      \<longrightarrow> queueDir (Some nd) s = s)
   \<and> (length (queuedDirs s) \<le> 2 \<longrightarrow> length (queuedDirs (fold queueDir nds s)) \<le> 2)
   \<and> (reachable s \<longrightarrow> length (queuedDirs (fold queueDir nds s)) \<le> 2)"
proof -
  have "reachable s \<longrightarrow> length (queuedDirs s) \<le> 2"
    using reachable_wellFormed [of s] by (auto simp: wellFormed_def)
  then show ?thesis
    using fold_queueDir_length [of s nds] by (auto simp: queueDir_def)
qed

text \<open>
  The amended claim at the fresh state: the candidate left is rejected while nothing is
  queued, and of the four turns down, left, up, right only the first two are kept.
\<close>

theorem queueDir_rejects_reverse_of_last_witness:
  "queuedDirs fresh = [] \<and> fst (dir fresh) + fst (-1 :: int, 0 :: int) = 0
   \<and> snd (dir fresh) + snd (-1 :: int, 0 :: int) = 0
   \<and> queueDir (Some (-1, 0)) fresh = fresh
   \<and> reachable fresh \<and> length (queuedDirs fresh) \<le> 2
   \<and> queuedDirs (fold queueDir [Some (0, 1), Some (-1, 0), Some (0, -1), Some (1, 0)] fresh)
        = [(0, 1), (-1, 0)]
   \<and> length (queuedDirs
         (fold queueDir [Some (0, 1), Some (-1, 0), Some (0, -1), Some (1, 0)] fresh)) \<le> 2"
proof -
  have v: "queuedDirs fresh = [] \<and> fst (dir fresh) + fst (-1 :: int, 0 :: int) = 0
   \<and> snd (dir fresh) + snd (-1 :: int, 0 :: int) = 0
   \<and> length (queuedDirs fresh) \<le> 2
   \<and> queuedDirs (fold queueDir [Some (0, 1), Some (-1, 0), Some (0, -1), Some (1, 0)] fresh)
        = [(0, 1), (-1, 0)]"
    by code_simp
  from queueDir_rejects_reverse_of_last
         [of fresh "(-1, 0)" "[Some (0, 1), Some (-1, 0), Some (0, -1), Some (1, 0)]"]
       v fresh_reachable
  show ?thesis by blast
qed

section \<open>Grid growth\<close>

text \<open>
  Claim C6. Within a run, that is for every event that does not start a run, handled in
  a reachable state: the grid size does not decrease and is at most 36, and when it
  changes it grows by exactly 2, on a step that left the snake with at least
  \<open>0.4 \<times> gridSize\<^sup>2\<close> cells (the grid size before the step).
\<close>

theorem grid_grows_by_two_up_to_36:
  assumes "reachable s" and "\<not> startsRun e s" and "handle e t rs s = Inr (s', rs')"
  shows "grid s \<le> grid s' \<and> grid s' \<le> 36
       \<and> (grid s' \<noteq> grid s \<longrightarrow>
            grid s' = grid s + 2
            \<and> of_int (grid s ^ 2) * (4 / 10 :: rat) \<le> of_nat (length (snake s')))"
proof -
  have w: "wellFormed s" using assms(1) by (rule reachable_wellFormed)
  have "reachable s'" using assms(1,3) by (rule reachable.event)
  then have "wellFormed s'" by (rule reachable_wellFormed)
  then have le: "grid s' \<le> 36" by (simp add: wellFormed_def)
  have "grid s' = grid s \<or>
         (grid s' = grid s + 2 \<and> grid s < 36
          \<and> of_int (grid s ^ 2) * (4 / 10 :: rat) \<le> of_nat (length (snake s')))"
  proof (cases e)
    case (Frame ts)
    then show ?thesis using assms(3) loop_grid by simp
  next
    case (KeyDown k)
    then show ?thesis using assms(2,3) onKeyDown_grid by simp
  next
    case PlayClick
    then show ?thesis using assms(2) by simp
  next
    case (TouchEnd dx dy)
    then show ?thesis using assms(2,3) onTouchEnd_grid [of dx dy s t rs s' rs'] by simp
  qed
  then show ?thesis using le by auto
qed

text \<open>
  The theorem on the tick that takes the snake to 26 cells on the 8 by 8 board
  (\<open>0.4 \<times> 64 = 25.6\<close>): the grid size becomes 10.
\<close>

theorem grid_grows_by_two_up_to_36_witness:
  "reachable grow_before \<and> \<not> startsRun (Frame 24000) grow_before
   \<and> handle (Frame 24000) 24000 [0, 0] grow_before = Inr (grow_after, [])
   \<and> grid grow_before = 8 \<and> grid grow_after = 10 \<and> length (snake grow_after) = 26
   \<and> grid grow_before \<le> grid grow_after \<and> grid grow_after \<le> 36
   \<and> of_int (grid grow_before ^ 2) * (4 / 10 :: rat) \<le> of_nat (length (snake grow_after))"
proof -
  have h: "handle (Frame 24000) 24000 [0, 0] grow_before = Inr (grow_after, [])"
    using grow_tick by simp
  have n: "\<not> startsRun (Frame 24000) grow_before" by simp
  have v: "grid grow_before = 8 \<and> grid grow_after = 10 \<and> length (snake grow_after) = 26"
    by code_simp
  from grid_grows_by_two_up_to_36 [OF grow_reachable n h] v grow_reachable h n
  show ?thesis by simp
qed

section \<open>The food and the snake\<close>

text \<open>
  Claim C7 says that the cell \<open>spawnFood\<close> returns is on the board and not in the
  occupancy index at the time of the call, so that the food never lies on a cell of the
  snake right after it is placed. The first part holds (\<open>spawnFood_sound\<close>). The second
  follows only while the index holds every cell of the snake, and it can miss one (claim
  C1): in the reachable state \<open>spawn_before\<close> the index misses the head cell \<open>(4, 3)\<close>;
  on the next tick the snake eats, the draws \<open>1/2\<close> and \<open>3/8\<close> give \<open>(4, 3)\<close>, and the
  food is placed on the second cell of the snake.
\<close>

theorem food_placed_on_snake:
  "reachable spawn_before \<and> started spawn_before \<and> \<not> gameOver spawn_before
   \<and> loop 9000 9000 [1 / 2, 3 / 8] spawn_before = Inr (spawn_after, [])
   \<and> food spawn_after = Some (4, 3)
   \<and> snake spawn_after ! 1 = (4, 3)
   \<and> (4, 3) \<notin> occupied spawn_after"
proof -
  have "started spawn_before \<and> \<not> gameOver spawn_before
   \<and> food spawn_after = Some (4, 3)
   \<and> snake spawn_after ! 1 = (4, 3)
   \<and> (4, 3) \<notin> occupied spawn_after"
    by code_simp
  with spawn_reachable spawn_tick show ?thesis by blast
qed

section \<open>Eating and moving\<close>





section \<open>The grid size at a run start\<close>

text \<open>
  Claim C9 says that every run start, the welcome run as well as every start and restart
  by the player, initialises the grid to the same size. \<open>resetToWelcome\<close>, written as a
  copy of \<open>resetGame\<close> under the comment "Use reset mechanics but keep not-started state
  for welcome screen", sets the grid size to 10; \<open>resetGame\<close> sets it to 8.
\<close>

theorem welcome_grid_is_not_start_grid:
  "resetToWelcome 0 [0, 0] state0 = Inr (idle, []) \<and> grid idle = 10
   \<and> resetGame 0 [1 / 2, 3 / 8] idle = Inr (fresh, []) \<and> grid fresh = 8"
  by code_simp

section \<open>No reversal from one tick to the next\<close>



end
